theory Spec2Isabelle
  imports
    Main
    "HOL-Library.Word"
    "HOL-Library.Signed_Division"
    "HOL-Library.Char_ord"
    "HOL-Library.List_Lexorder"
begin

unbundle bit_operations_syntax

section \<open>The HTTP data the handlers work on\<close>

text \<open>
  The program is a Go HTTPS server (package \<open>main\<close>): a middleware pipeline
  (\<open>Apply\<close>, \<open>Recover\<close>, \<open>Log\<close>, \<open>SecureHeaders\<close>, \<open>AcceptHeaders\<close>), the
  static handler \<open>Index\<close> and the certificate provider \<open>selfSignedX509\<close>.

  A handler receives a response writer and a request. The response writer is an
  interface with three methods: \<open>Header()\<close> (a mutable map), \<open>WriteHeader(code)\<close> and
  \<open>Write(bytes)\<close>. The writer the server hands in is modelled by the sequence of calls
  made on it; \<open>statusRecorder\<close> is the one implementation of the interface the
  program declares itself.
\<close>

datatype wcall =
    HeaderSet string string   \<comment> \<open>\<open>w.Header().Set(key, value)\<close>\<close>
  | WriteHeaderCall int       \<comment> \<open>\<open>w.WriteHeader(code)\<close>\<close>
  | WriteCall string          \<comment> \<open>\<open>w.Write(bytes)\<close>\<close>

text \<open>
  \<open>type statusRecorder struct { http.ResponseWriter; status int; size int }\<close>:
  the embedded writer, then the two fields.
\<close>

datatype ResponseWriter =
    Response "wcall list"
  | StatusRecorder ResponseWriter int int

fun Header_Set :: "string \<Rightarrow> string \<Rightarrow> ResponseWriter \<Rightarrow> ResponseWriter" where
  "Header_Set k v (Response cs) = Response (cs @ [HeaderSet k v])"
| "Header_Set k v (StatusRecorder w st sz) = StatusRecorder (Header_Set k v w) st sz"

text \<open>
  \<open>func (rec *statusRecorder) WriteHeader(code int)\<close> stores the code and passes the
  call on; \<open>Header\<close> and \<open>Write\<close> are promoted from the embedded writer unchanged.
\<close>

fun WriteHeader :: "int \<Rightarrow> ResponseWriter \<Rightarrow> ResponseWriter" where
  "WriteHeader code (Response cs) = Response (cs @ [WriteHeaderCall code])"
| "WriteHeader code (StatusRecorder w st sz) = StatusRecorder (WriteHeader code w) code sz"

fun Write :: "string \<Rightarrow> ResponseWriter \<Rightarrow> ResponseWriter" where
  "Write b (Response cs) = Response (cs @ [WriteCall b])"
| "Write b (StatusRecorder w st sz) = StatusRecorder (Write b w) st sz"

fun calls :: "ResponseWriter \<Rightarrow> wcall list" where
  "calls (Response cs) = cs"
| "calls (StatusRecorder w st sz) = calls w"

fun header_of :: "wcall list \<Rightarrow> (string \<rightharpoonup> string)" where
  "header_of [] = Map.empty"
| "header_of (HeaderSet k v # cs) = (header_of cs)(k \<mapsto> v)"
| "header_of (c # cs) = header_of cs"

text \<open>
  The header map as the calls so far left it; \<open>header_of\<close> reads the calls latest
  first, so the last \<open>Set\<close> of a key wins.
\<close>

definition w_Header :: "ResponseWriter \<Rightarrow> (string \<rightharpoonup> string)" where
  "w_Header w = header_of (rev (calls w))"

fun codes_of :: "wcall list \<Rightarrow> int list" where
  "codes_of [] = []"
| "codes_of (WriteHeaderCall c # cs) = c # codes_of cs"
| "codes_of (c # cs) = codes_of cs"

fun body_of :: "wcall list \<Rightarrow> string" where
  "body_of [] = []"
| "body_of (WriteCall b # cs) = b @ body_of cs"
| "body_of (c # cs) = body_of cs"

fun do_call :: "wcall \<Rightarrow> ResponseWriter \<Rightarrow> ResponseWriter" where
  "do_call (HeaderSet k v) w = Header_Set k v w"
| "do_call (WriteHeaderCall c) w = WriteHeader c w"
| "do_call (WriteCall b) w = Write b w"

fun do_calls :: "wcall list \<Rightarrow> ResponseWriter \<Rightarrow> ResponseWriter" where
  "do_calls [] w = w"
| "do_calls (c # cs) w = do_calls cs (do_call c w)"

subsection \<open>Requests\<close>

record URL =
  Scheme :: string
  Host :: string
  Path :: string
  RawPath :: string
  RawQuery :: string

type_synonym UUID = "8 word list"

datatype ctxval = ValUUID UUID | ValOther string

type_synonym Context = "(string \<times> ctxval) list"

record ConnectionState =
  Version :: nat
  ServerName :: string

record Request =
  Method :: string
  URL :: URL
  Proto :: string
  Header :: "string \<rightharpoonup> string"
  ReqHost :: string
  RemoteAddr :: string
  TLS :: "ConnectionState option"
  BasicAuth :: "(string \<times> string) option"
  Ctx :: Context

text \<open>
  \<open>r.Header.Get(key)\<close>: the value stored for the key, or the empty string. Header names
  are case-insensitive; the map is keyed by the name as the program writes it at the
  lookup. \<open>BasicAuth\<close> holds what \<open>r.BasicAuth()\<close> parses out of the Authorization
  header, \<open>ReqHost\<close> is the field \<open>r.Host\<close>.
\<close>

definition Header_Get :: "(string \<rightharpoonup> string) \<Rightarrow> string \<Rightarrow> string" where
  "Header_Get h k = (case h k of None \<Rightarrow> [] | Some v \<Rightarrow> v)"

definition UserAgent :: "Request \<Rightarrow> string" where
  "UserAgent r = Header_Get (Header r) ''User-Agent''"

definition Referer :: "Request \<Rightarrow> string" where
  "Referer r = Header_Get (Header r) ''Referer''"

subsection \<open>The world outside a request\<close>

datatype error = EOF | ErrUnexpectedEOF | Errorf string error | ErrOther string

record CLFEntry =
  addr :: string
  userID :: string
  ident :: string
  ts :: int
  clf_method :: string
  path :: string
  proto :: string
  status :: int
  clf_size :: int
  ua :: string
  referrer :: string

text \<open>
  What the program prints, one event per call, with the arguments of the call in place of
  the formatted text.
\<close>

datatype log_event =
    Printf_UUID error            \<comment> \<open>\<open>logger.Printf("UUID: %v\n", err)\<close>\<close>
  | Println_malformed            \<comment> \<open>\<open>logger.Println("malformed uuid in request context")\<close>\<close>
  | Println_CLF CLFEntry         \<comment> \<open>\<open>logger.Println(l)\<close>\<close>
  | Printf_slow UUID int         \<comment> \<open>\<open>logger.Printf("slow request: %x (took: %v)\n", uuid, took)\<close>\<close>
  | Printf_panic string Context  \<comment> \<open>\<open>logger.Printf("panic(%): %v\n", err, r.Context())\<close>\<close>
  | Println_Stack                \<comment> \<open>\<open>fmt.Println(string(debug.Stack()))\<close>\<close>

text \<open>
  \<open>clock\<close> gives the successive readings of \<open>time.Now()\<close> in nanoseconds, \<open>ticks\<close>
  counts the readings taken, \<open>rander\<close> holds the bytes the entropy source still
  delivers, \<open>logged\<close> is the output so far.
\<close>

record world =
  clock :: "nat \<Rightarrow> int"
  ticks :: nat
  rander :: "8 word list"
  logged :: "log_event list"

definition time_Now :: "world \<Rightarrow> int \<times> world" where
  "time_Now s = (clock s (ticks s), s\<lparr>ticks := Suc (ticks s)\<rparr>)"

definition emit :: "log_event \<Rightarrow> world \<Rightarrow> world" where
  "emit e s = s\<lparr>logged := logged s @ [e]\<rparr>"

text \<open>
  A handler returns or panics with a value; either way the calls it made stay made. The
  value of a panic is never nil: \<open>panic(nil)\<close> raises a \<open>*runtime.PanicNilError\<close>.
\<close>

datatype outcome = Return | Panic string

type_synonym Handler = "ResponseWriter \<Rightarrow> Request \<Rightarrow> world \<Rightarrow> outcome \<times> ResponseWriter \<times> world"

type_synonym Middleware = "Handler \<Rightarrow> Handler"

section \<open>Library functions the program calls\<close>

text \<open>
  The functions of the Go standard library the handlers call, as far as the handlers
  depend on them.
\<close>

definition newline :: string where
  "newline = [CHR 0x0A]"

definition lower_char :: "char \<Rightarrow> char" where
  "lower_char c = (if CHR ''A'' \<le> c \<and> c \<le> CHR ''Z'' then char_of (of_char c + (32::nat)) else c)"

text \<open>\<open>strings.ToLower\<close> on ASCII text.\<close>

definition strings_ToLower :: "string \<Rightarrow> string" where
  "strings_ToLower s = map lower_char s"

definition strings_HasPrefix :: "string \<Rightarrow> string \<Rightarrow> bool" where
  "strings_HasPrefix s p = (length p \<le> length s \<and> take (length p) s = p)"

fun strings_Join :: "string list \<Rightarrow> string \<Rightarrow> string" where
  "strings_Join [] sep = []"
| "strings_Join [x] sep = x"
| "strings_Join (x # xs) sep = x @ sep @ strings_Join xs sep"

text \<open>\<open>http.StatusText\<close>, for the codes the program uses; the empty string otherwise.\<close>

definition http_StatusText :: "int \<Rightarrow> string" where
  "http_StatusText code =
     (if code = 200 then ''OK''
      else if code = 301 then ''Moved Permanently''
      else if code = 404 then ''Not Found''
      else if code = 405 then ''Method Not Allowed''
      else if code = 414 then ''Request URI Too Long''
      else if code = 500 then ''Internal Server Error''
      else [])"

definition hextable :: string where
  "hextable = ''0123456789abcdef''"

text \<open>\<open>hex.Encode(dst, src)\<close>: the bytes written to \<open>dst\<close>, two digits for each byte.\<close>

definition hex_Encode :: "8 word list \<Rightarrow> string" where
  "hex_Encode src = concat (map (\<lambda>v. [hextable ! unat (drop_bit 4 v), hextable ! unat (v AND 0x0f)]) src)"

definition hexEscapeNonASCII :: "string \<Rightarrow> string" where
  "hexEscapeNonASCII s =
     concat (map (\<lambda>c. if (of_char c :: nat) \<ge> 128
                       then CHR ''%'' # [hextable ! (of_char c div 16), hextable ! (of_char c mod 16)]
                       else [c]) s)"

definition htmlEscape :: "string \<Rightarrow> string" where
  "htmlEscape s =
     concat (map (\<lambda>c. if c = CHR ''&'' then ''&amp;''
                       else if c = CHR ''<'' then ''&lt;''
                       else if c = CHR ''>'' then ''&gt;''
                       else if c = CHR 0x22 then ''&#34;''
                       else if c = CHR 0x27 then ''&#39;''
                       else [c]) s)"

text \<open>
  \<open>http.Error(w, error, code)\<close>: two headers, the status line, the text and a newline.
\<close>

definition http_Error :: "ResponseWriter \<Rightarrow> string \<Rightarrow> int \<Rightarrow> ResponseWriter" where
  "http_Error w err code =
     Write (err @ newline)
       (WriteHeader code
         (Header_Set ''X-Content-Type-Options'' ''nosniff''
           (Header_Set ''Content-Type'' ''text/plain; charset=utf-8'' w)))"

definition http_NotFound :: "ResponseWriter \<Rightarrow> Request \<Rightarrow> ResponseWriter" where
  "http_NotFound w r = http_Error w ''404 page not found'' 404"

text \<open>
  \<open>http.Redirect(w, r, url, code)\<close> for a \<open>url\<close> that has a scheme, as it has at the
  one call of the program: the Location header, a Content-Type and a short HTML body
  unless the response already had a Content-Type.
\<close>

definition http_Redirect :: "ResponseWriter \<Rightarrow> Request \<Rightarrow> string \<Rightarrow> int \<Rightarrow> ResponseWriter" where
  "http_Redirect w r url code =
     (let hadCT = (w_Header w ''Content-Type'' \<noteq> None);
          w1 = Header_Set ''Location'' (hexEscapeNonASCII url) w;
          w2 = (if \<not> hadCT \<and> (Method r = ''GET'' \<or> Method r = ''HEAD'')
                then Header_Set ''Content-Type'' ''text/html; charset=utf-8'' w1 else w1);
          w3 = WriteHeader code w2
      in if \<not> hadCT \<and> Method r = ''GET''
         then Write (''<a href='' @ [CHR 0x22] @ htmlEscape url @ [CHR 0x22] @ ''>''
                      @ http_StatusText code @ ''</a>.'' @ newline @ newline) w3
         else w3)"

text \<open>
  Escaping in package \<open>net/url\<close>, for the two modes \<open>u.String()\<close> uses on the fields
  modelled here: which bytes \<open>shouldEscape\<close> escapes, and \<open>escape\<close>, which writes each
  of them as \<open>%XX\<close> with upper-case digits.
\<close>

datatype encoding = encodePath | encodeHost

definition isAlnum :: "char \<Rightarrow> bool" where
  "isAlnum c = ((CHR ''a'' \<le> c \<and> c \<le> CHR ''z'') \<or> (CHR ''A'' \<le> c \<and> c \<le> CHR ''Z'')
                \<or> (CHR ''0'' \<le> c \<and> c \<le> CHR ''9''))"

definition shouldEscape :: "char \<Rightarrow> encoding \<Rightarrow> bool" where
  "shouldEscape c mode =
     (if isAlnum c then False
      else if mode = encodeHost
              \<and> c \<in> set (''!$&'' @ [CHR 0x27] @ ''()*+,;=:[]<>'' @ [CHR 0x22]) then False
      else if c \<in> set ''-_.~'' then False
      else if c \<in> set ''$&+,/:;=?@''
      then (case mode of encodePath \<Rightarrow> c = CHR ''?'' | encodeHost \<Rightarrow> True)
      else True)"

definition upperhex :: string where
  "upperhex = ''0123456789ABCDEF''"

definition escape :: "string \<Rightarrow> encoding \<Rightarrow> string" where
  "escape s mode =
     concat (map (\<lambda>c. if shouldEscape c mode
                       then [CHR ''%'', upperhex ! (of_char c div 16), upperhex ! (of_char c mod 16)]
                       else [c]) s)"

definition ishex :: "char \<Rightarrow> bool" where
  "ishex c = ((CHR ''0'' \<le> c \<and> c \<le> CHR ''9'') \<or> (CHR ''a'' \<le> c \<and> c \<le> CHR ''f'')
              \<or> (CHR ''A'' \<le> c \<and> c \<le> CHR ''F''))"

definition unhex :: "char \<Rightarrow> nat" where
  "unhex c =
     (if CHR ''0'' \<le> c \<and> c \<le> CHR ''9'' then of_char c - of_char (CHR ''0'')
      else if CHR ''a'' \<le> c \<and> c \<le> CHR ''f'' then of_char c - of_char (CHR ''a'') + 10
      else if CHR ''A'' \<le> c \<and> c \<le> CHR ''F'' then of_char c - of_char (CHR ''A'') + 10
      else 0)"

text \<open>
  \<open>validEncoded(s, encodePath)\<close> and \<open>unescape(s, encodePath)\<close>; the latter fails on a
  \<open>%\<close> that is not followed by two hexadecimal digits.
\<close>

definition validEncoded :: "string \<Rightarrow> bool" where
  "validEncoded s =
     list_all (\<lambda>c. c \<in> set (''!$&'' @ [CHR 0x27] @ ''()*+,;=:@[]%'') \<or> \<not> shouldEscape c encodePath) s"

fun unescape :: "string \<Rightarrow> string option" where
  "unescape [] = Some []"
| "unescape (c # cs) =
     (if c = CHR ''%''
      then (case cs of
              h1 # h2 # rest \<Rightarrow>
                (if ishex h1 \<and> ishex h2
                 then (case unescape rest of
                         Some t \<Rightarrow> Some (char_of (unhex h1 * 16 + unhex h2) # t)
                       | None \<Rightarrow> None)
                 else None)
            | _ \<Rightarrow> None)
      else (case unescape cs of Some t \<Rightarrow> Some (c # t) | None \<Rightarrow> None))"

text \<open>
  \<open>u.EscapedPath()\<close>: \<open>RawPath\<close> when it is a valid encoding of \<open>Path\<close>, otherwise the
  escaped form of \<open>Path\<close> computed here.
\<close>

definition EscapedPath :: "URL \<Rightarrow> string" where
  "EscapedPath u =
     (if RawPath u \<noteq> [] \<and> validEncoded (RawPath u) \<and> unescape (RawPath u) = Some (Path u)
      then RawPath u
      else if Path u = ''*'' then ''*''
      else escape (Path u) encodePath)"

text \<open>
  \<open>u.String()\<close> for a URL of scheme, host, path and query (no opaque part, user
  information or fragment).
\<close>

definition URL_String :: "URL \<Rightarrow> string" where
  "URL_String u =
     (let b1 = (if Scheme u \<noteq> [] then Scheme u @ '':'' else []);
          b2 = (if Scheme u \<noteq> [] \<or> Host u \<noteq> []
                then (if Host u \<noteq> [] \<or> Path u \<noteq> [] then ''//'' else [])
                     @ (if Host u \<noteq> [] then escape (Host u) encodeHost else [])
                else []);
          path = EscapedPath u;
          b3 = (if path \<noteq> [] \<and> hd path \<noteq> CHR ''/'' \<and> Host u \<noteq> [] then ''/'' else []);
          b4 = (if b1 @ b2 @ b3 = [] \<and> CHR '':'' \<in> set (takeWhile (\<lambda>c. c \<noteq> CHR ''/'') path)
                then ''./'' else []);
          q = (if RawQuery u \<noteq> [] then ''?'' @ RawQuery u else [])
      in b1 @ b2 @ b3 @ b4 @ path @ q)"

text \<open>\<open>path.Base\<close>: the last element of a slash-separated path.\<close>

definition path_Base :: "string \<Rightarrow> string" where
  "path_Base p =
     (if p = [] then ''.''
      else let p1 = rev (dropWhile (\<lambda>c. c = CHR ''/'') (rev p));
               p2 = rev (takeWhile (\<lambda>c. c \<noteq> CHR ''/'') (rev p1))
           in if p2 = [] then ''/'' else p2)"

definition context_WithValue :: "Context \<Rightarrow> string \<Rightarrow> ctxval \<Rightarrow> Context" where
  "context_WithValue ctx k v = (k, v) # ctx"

definition context_Value :: "Context \<Rightarrow> string \<Rightarrow> ctxval option" where
  "context_Value ctx k = map_of ctx k"

text \<open>
  \<open>io.ReadFull(rander, buf)\<close> with \<open>len(buf) = n\<close>: the bytes read, and an error when
  the source ends early.
\<close>

definition io_ReadFull :: "nat \<Rightarrow> world \<Rightarrow> 8 word list \<times> error option \<times> world" where
  "io_ReadFull n s =
     (let bs = take n (rander s)
      in (bs,
          (if length bs = n then None else if bs = [] then Some EOF else Some ErrUnexpectedEOF),
          s\<lparr>rander := drop n (rander s)\<rparr>))"

definition Nanosecond :: int where "Nanosecond = 1"
definition Microsecond :: int where "Microsecond = 1000 * Nanosecond"
definition Millisecond :: int where "Millisecond = 1000 * Microsecond"
definition Second :: int where "Second = 1000 * Millisecond"
definition Minute :: int where "Minute = 60 * Second"
definition Hour :: int where "Hour = 60 * Minute"

section \<open>The middleware pipeline\<close>

text \<open>
  \<open>for i := range m { h = m[len(m)-1-i](h) }\<close>: the loop of \<open>Apply\<close>, from index
  \<open>i\<close> on.
\<close>

function Apply_loop :: "Middleware list \<Rightarrow> nat \<Rightarrow> Handler \<Rightarrow> Handler" where
  "Apply_loop m i h =
     (if i < length m then Apply_loop m (Suc i) ((m ! (length m - 1 - i)) h) else h)"
  by pat_completeness auto
termination
  by (relation "measure (\<lambda>(m, i, h). length m - i)") auto

definition Apply :: "Middleware list \<Rightarrow> Middleware" where
  "Apply m = (\<lambda>h. Apply_loop m 0 h)"

text \<open>
  The nesting the documentation of \<open>Apply\<close> gives:
  \<open>Apply(m1, m2, ..., mn)(handler) <=> m1(m2(...mn(handler)))\<close>.
\<close>

fun nested :: "Middleware list \<Rightarrow> Handler \<Rightarrow> Handler" where
  "nested [] h = h"
| "nested (m # ms) h = m (nested ms h)"

text \<open>
  \<open>Recover\<close>: the deferred function runs when \<open>next.ServeHTTP\<close> panics; \<open>recover()\<close>
  stops the panic, so the handler returns.
\<close>

definition Recover :: Middleware where
  "Recover next w r s =
     (case next w r s of
        (Return, w', s') \<Rightarrow> (Return, w', s')
      | (Panic err, w', s') \<Rightarrow>
          (Return,
           http_Error w' (http_StatusText 500) 500,
           emit Println_Stack (emit (Printf_panic err (Ctx r)) s')))"

subsection \<open>Correlation identifiers\<close>

text \<open>
  \<open>NewV4UUID\<close>: \<open>var u UUID\<close> is sixteen zero bytes, \<open>io.ReadFull\<close> fills what it could
  read; on an error \<open>u\<close> is returned as it is.
\<close>

definition NewV4UUID :: "world \<Rightarrow> UUID \<times> error option \<times> world" where
  "NewV4UUID s =
     (case io_ReadFull 16 s of
        (bs, err, s') \<Rightarrow>
          (let u = bs @ replicate (16 - length bs) 0
           in if err \<noteq> None then (u, err, s')
              else (let u1 = u[6 := (u ! 6 AND 0x0f) OR 0x40];
                        u2 = u1[8 := (u1 ! 8 AND 0x3f) OR 0x80]
                    in (u2, None, s'))))"

definition NewV4UUIDRandom :: "world \<Rightarrow> UUID \<times> error option \<times> world" where
  "NewV4UUIDRandom s = NewV4UUID s"

text \<open>\<open>copy\<close> into a buffer at an offset, as \<open>hex.Encode(buf[off:], ...)\<close> writes.\<close>

definition put_at :: "nat \<Rightarrow> 'a list \<Rightarrow> 'a list \<Rightarrow> 'a list" where
  "put_at off xs buf = take off buf @ xs @ drop (off + length xs) buf"

definition UUID_String :: "UUID \<Rightarrow> string" where
  "UUID_String uuid =
     (let buf = replicate 36 (CHR 0x00);
          buf = put_at 0 (hex_Encode (take 4 uuid)) buf;
          buf = buf[8 := CHR ''-''];
          buf = put_at 9 (hex_Encode (take 2 (drop 4 uuid))) buf;
          buf = buf[13 := CHR ''-''];
          buf = put_at 14 (hex_Encode (take 2 (drop 6 uuid))) buf;
          buf = buf[18 := CHR ''-''];
          buf = put_at 19 (hex_Encode (take 2 (drop 8 uuid))) buf;
          buf = buf[23 := CHR ''-''];
          buf = put_at 24 (hex_Encode (drop 10 uuid)) buf
      in buf)"

definition zeroUUID :: UUID where
  "zeroUUID = replicate 16 0"

text \<open>
  \<open>NewRequestContext\<close>: \<open>var uuid UUID\<close> starts as the zero value and is assigned only
  in the branch where the request has no \<open>uuid\<close> header.
\<close>

definition NewRequestContext :: "Request \<Rightarrow> world \<Rightarrow> Context \<times> world" where
  "NewRequestContext r s =
     (let rid = Header_Get (Header r) ''uuid''
      in if rid = []
         then (case NewV4UUIDRandom s of
                 (uuid, err, s') \<Rightarrow>
                   (context_WithValue (Ctx r) ''uuid'' (ValUUID uuid),
                    (if err \<noteq> None then emit (Printf_UUID (the err)) s' else s')))
         else (context_WithValue (Ctx r) ''uuid'' (ValUUID zeroUUID), s))"

subsection \<open>Access logging\<close>

text \<open>
  \<open>net.SplitHostPort\<close>: host and port of \<open>host:port\<close> or \<open>[host]:port\<close>, or nothing
  where it reports an error.
\<close>

definition net_SplitHostPort :: "string \<Rightarrow> (string \<times> string) option" where
  "net_SplitHostPort hp =
     (if CHR '':'' \<notin> set hp then None
      else (let i = length hp - 1 - length (takeWhile (\<lambda>c. c \<noteq> CHR '':'') (rev hp))
            in if hd hp = CHR ''[''
               then (if CHR '']'' \<notin> set hp then None
                     else (let e = length (takeWhile (\<lambda>c. c \<noteq> CHR '']'') hp)
                           in if e + 1 \<noteq> i then None
                              else if CHR ''['' \<in> set (drop 1 hp) \<or> CHR '']'' \<in> set (drop (e + 1) hp)
                              then None
                              else Some (take (e - 1) (drop 1 hp), drop (i + 1) hp)))
               else (let host = take i hp
                     in if CHR '':'' \<in> set host \<or> CHR ''['' \<in> set hp \<or> CHR '']'' \<in> set hp
                        then None
                        else Some (host, drop (i + 1) hp))))"

definition NewCLFEntry :: "Request \<Rightarrow> UUID \<Rightarrow> world \<Rightarrow> CLFEntry \<times> world" where
  "NewCLFEntry r uuid s =
     (case time_Now s of
        (now, s') \<Rightarrow>
          (let l = \<lparr> addr = ''-'', userID = ''-'', ident = UUID_String uuid, ts = now,
                     clf_method = Method r, path = Path (URL r), proto = Proto r,
                     status = 0, clf_size = 0, ua = ''-'', referrer = ''-'' \<rparr>;
               l = (if UserAgent r \<noteq> [] then l\<lparr>ua := UserAgent r\<rparr> else l);
               l = (if Referer r \<noteq> [] then l\<lparr>referrer := Referer r\<rparr> else l);
               l = (case BasicAuth r of Some (u, p) \<Rightarrow> l\<lparr>userID := u\<rparr> | None \<Rightarrow> l);
               l = (case net_SplitHostPort (RemoteAddr r) of Some (a, p) \<Rightarrow> l\<lparr>addr := a\<rparr> | None \<Rightarrow> l)
           in (l, s')))"

text \<open>
  The fields of the recorder \<open>Log\<close> reads after the downstream handler. A handler keeps
  the writer it was given, so the writer that comes back from a handler given a
  \<open>statusRecorder\<close> is that recorder.
\<close>

fun rec_status :: "ResponseWriter \<Rightarrow> int" where
  "rec_status (StatusRecorder w st sz) = st"
| "rec_status (Response cs) = 0"

fun rec_size :: "ResponseWriter \<Rightarrow> int" where
  "rec_size (StatusRecorder w st sz) = sz"
| "rec_size (Response cs) = 0"

fun rec_ResponseWriter :: "ResponseWriter \<Rightarrow> ResponseWriter" where
  "rec_ResponseWriter (StatusRecorder w st sz) = w"
| "rec_ResponseWriter (Response cs) = Response cs"

text \<open>
  \<open>Log\<close>. A panic of the downstream handler leaves \<open>Log\<close> at once: nothing after
  \<open>next.ServeHTTP\<close> runs. \<open>took/1000\<close> is Go's integer division, which truncates.
\<close>

definition Log :: Middleware where
  "Log next w r s =
     (case NewRequestContext r s of
        (ctx, s1) \<Rightarrow>
          (let (uuid, ok) = (case context_Value ctx ''uuid'' of
                               Some (ValUUID u) \<Rightarrow> (u, True)
                             | _ \<Rightarrow> (zeroUUID, False));
               s2 = (if \<not> ok then emit Println_malformed s1 else s1);
               wr = StatusRecorder w 200 0
           in case NewCLFEntry r uuid s2 of
                (l, s3) \<Rightarrow>
                  (case next wr (r\<lparr>Ctx := ctx\<rparr>) s3 of
                     (Panic err, wr', s4) \<Rightarrow> (Panic err, rec_ResponseWriter wr', s4)
                   | (Return, wr', s4) \<Rightarrow>
                       (case time_Now s4 of
                          (t1, s5) \<Rightarrow>
                            (let l' = l\<lparr>status := rec_status wr', clf_size := rec_size wr'\<rparr>;
                                 s6 = emit (Println_CLF l') s5;
                                 took = t1 - ts l';
                                 s7 = (if took sdiv 1000 \<ge> 200
                                       then emit (Printf_slow uuid took) s6 else s6)
                             in (Return, rec_ResponseWriter wr', s7))))))"

definition Default :: Middleware where
  "Default = Apply [Log, Recover]"

subsection \<open>Security headers and the HTTPS redirect\<close>

definition cspNone :: string where "cspNone = [CHR 0x27] @ ''none'' @ [CHR 0x27]"
definition cspSelf :: string where "cspSelf = [CHR 0x27] @ ''self'' @ [CHR 0x27]"

definition csp :: "(string \<times> string list) list" where
  "csp = [(''default-src'', [cspNone]),
          (''base-uri'', [cspNone]),
          (''font-src'', [cspSelf]),
          (''form-action'', [cspNone]),
          (''frame-ancestors'', [cspNone]),
          (''img-src'', [cspSelf]),
          (''style-src'', [cspSelf])]"

text \<open>\<open>DefaultCSP\<close> as \<open>init\<close> leaves it: the directives sorted and joined.\<close>

definition DefaultCSP :: string where
  "DefaultCSP = strings_Join (sort (map (\<lambda>(k, vs). k @ '' '' @ strings_Join vs '' '') csp)) '';''"

definition hostList :: "string \<rightharpoonup> bool" where
  "hostList = map_of [(''blog.bwsd.net'', True), (''bwsd.net'', True), (''www.bwsd.net'', True)]"

text \<open>
  \<open>SecureHeaders\<close>. The assignment \<open>r.URL.Scheme = "https"\<close> is seen by the call of
  \<open>http.Redirect\<close> that follows it; \<open>host\<close> is computed and not used again.
\<close>

definition SecureHeaders :: Middleware where
  "SecureHeaders h w r s =
     (let host = strings_ToLower (ReqHost r);
          host = (if \<not> (case hostList host of Some ok \<Rightarrow> ok | None \<Rightarrow> False) then ''bwsd.net'' else host)
      in if TLS r = None \<or> Scheme (URL r) = ''http''
         then (let r' = r\<lparr>URL := (URL r)\<lparr>Scheme := ''https''\<rparr>\<rparr>
               in (Return, http_Redirect w r' (URL_String (URL r')) 301, s))
         else (let w = Header_Set ''Strict-Transport-Security''
                         ''max-age=63072000; includeSubDomains; preload'' w;
                   w = Header_Set ''Content-Security-Policy'' DefaultCSP w;
                   w = Header_Set ''X-Frame-Options'' ''Deny'' w;
                   w = Header_Set ''Permissions-Policy'' ''interest-cohort=()'' w;
                   w = Header_Set ''X-Content-Type-Options'' ''nosniff'' w;
                   w = Header_Set ''Referrer-Policy'' ''same-origin'' w
               in h w r s))"

subsection \<open>The method and length gate\<close>

definition maxURILen :: nat where
  "maxURILen = 512"

definition DefaultAllowedMethods :: "string list" where
  "DefaultAllowedMethods = [''GET'', ''HEAD'', ''OPTIONS'']"

text \<open>
  \<open>for _, am := range DefaultAllowedMethods { if r.Method == am { h.ServeHTTP(w, r); return } }\<close>
  and the two statements after the loop.
\<close>

fun AcceptHeaders_loop :: "string list \<Rightarrow> Handler \<Rightarrow> Handler" where
  "AcceptHeaders_loop [] h w r s =
     (Return, http_Error w (http_StatusText 405) 405, s)"
| "AcceptHeaders_loop (am # ams) h w r s =
     (if Method r = am then h w r s else AcceptHeaders_loop ams h w r s)"

definition AcceptHeaders :: "string list \<Rightarrow> Middleware" where
  "AcceptHeaders m h w r s =
     (if length (URL_String (URL r)) \<ge> maxURILen
      then (Return, http_Error w (http_StatusText 414) 414, s)
      else (let m = (if length m = 0 then DefaultAllowedMethods else m)
            in AcceptHeaders_loop DefaultAllowedMethods h w r s))"

definition middleware :: "Handler \<Rightarrow> Handler" where
  "middleware mux = Apply [SecureHeaders, AcceptHeaders []] mux"

subsection \<open>The static handler\<close>

text \<open>
  \<open>serveStaticFS\<close>; \<open>fs\<close> is the handler \<open>http.FileServer(http.FS(fsys))\<close>.
\<close>

definition serveStaticFS :: "Handler \<Rightarrow> ResponseWriter \<Rightarrow> Request \<Rightarrow> string \<Rightarrow> world
    \<Rightarrow> outcome \<times> ResponseWriter \<times> world" where
  "serveStaticFS fs w r name s =
     (let wkf = path_Base name
      in if wkf = ''robots.txt''
         then (let w = Header_Set ''Cache-Control'' ''max-age=300'' w;
                   w = Header_Set ''Content-Type'' ''text/plain; charset=utf-8'' w
               in fs w (r\<lparr>URL := (URL r)\<lparr>Path := name\<rparr>\<rparr>) s)
         else if wkf = ''security.txt''
         then (let w = Header_Set ''Content-Type'' ''text/plain; charset=utf-8'' w
               in fs w (r\<lparr>URL := (URL r)\<lparr>Path := name\<rparr>\<rparr>) s)
         else (Return, w, s))"

text \<open>
  \<open>Index\<close>: the \<open>if\<close> calls \<open>http.NotFound\<close> and has no \<open>return\<close>; \<open>serveStaticFS\<close> is
  the next statement on both paths.
\<close>

definition Index :: "Handler \<Rightarrow> Handler" where
  "Index fs w r s =
     (let w = (if strings_HasPrefix (Path (URL r)) ''/.well-known/acme-challenge/''
               then http_NotFound w r else w)
      in serveStaticFS fs w r (Path (URL r)) s)"

section \<open>The certificate provider\<close>

datatype ExtKeyUsage = ExtKeyUsageAny | ExtKeyUsageServerAuth | ExtKeyUsageClientAuth

definition KeyUsageDigitalSignature :: int where "KeyUsageDigitalSignature = push_bit 0 1"
definition KeyUsageCertSign :: int where "KeyUsageCertSign = push_bit 5 1"

record x509_Certificate =
  SerialNumber :: int
  Organization :: "string list"
  NotBefore :: int
  NotAfter :: int
  KeyUsage :: int
  ExtKeyUsage :: "ExtKeyUsage list"
  IsCA :: bool

record ('k, 'd) tls_Certificate =
  Certificate :: "'d list"
  PrivateKey :: 'k

record ('k, 'd) tls_Config =
  Certificates :: "('k, 'd) tls_Certificate list"

text \<open>
  The cryptographic library is a parameter: key generation, \<open>priv.Public()\<close>,
  \<open>rand.Int\<close> and \<open>x509.CreateCertificate\<close>, each with the error it may return. \<open>'k\<close> is
  the type of private keys, \<open>'p\<close> of public keys, \<open>'d\<close> of encoded certificates.
\<close>

record ('k, 'p, 'd) crypto =
  ecdsa_GenerateKey :: "world \<Rightarrow> (error + 'k) \<times> world"
  Public :: "'k \<Rightarrow> 'p"
  rand_Int :: "int \<Rightarrow> world \<Rightarrow> (error + int) \<times> world"
  x509_CreateCertificate ::
    "x509_Certificate \<Rightarrow> x509_Certificate \<Rightarrow> 'p \<Rightarrow> 'k \<Rightarrow> world \<Rightarrow> (error + 'd) \<times> world"

text \<open>
  \<open>selfSignedX509\<close>. The template reads the clock twice: \<open>time.Now().Add(-time.Minute)\<close>
  for \<open>NotBefore\<close>, then \<open>time.Now().Add(7 * 24 * time.Hour)\<close> for \<open>NotAfter\<close>.
\<close>

definition selfSignedX509 ::
    "('k, 'p, 'd) crypto \<Rightarrow> string \<Rightarrow> world \<Rightarrow> (error + ('k, 'd) tls_Config) \<times> world" where
  "selfSignedX509 lib dirCache s =
     (case ecdsa_GenerateKey lib s of
        (Inl err, s1) \<Rightarrow> (Inl err, s1)
      | (Inr priv, s1) \<Rightarrow>
          (let serialNumberLimit = push_bit 128 (1::int)
           in case rand_Int lib serialNumberLimit s1 of
                (Inl err, s2) \<Rightarrow> (Inl (Errorf ''serial number: '' err), s2)
              | (Inr serial, s2) \<Rightarrow>
                  (case time_Now s2 of
                     (now1, s3) \<Rightarrow>
                       (case time_Now s3 of
                          (now2, s4) \<Rightarrow>
                            (let tmpl = \<lparr> SerialNumber = serial,
                                          Organization = [''web''],
                                          NotBefore = now1 + (- Minute),
                                          NotAfter = now2 + 7 * 24 * Hour,
                                          KeyUsage = KeyUsageDigitalSignature OR KeyUsageCertSign,
                                          ExtKeyUsage = [ExtKeyUsageServerAuth],
                                          IsCA = True \<rparr>
                             in case x509_CreateCertificate lib tmpl tmpl (Public lib priv) priv s4 of
                                  (Inl err, s5) \<Rightarrow> (Inl err, s5)
                                | (Inr der, s5) \<Rightarrow>
                                    (Inr \<lparr> Certificates =
                                             [\<lparr> Certificate = [der], PrivateKey = priv \<rparr>] \<rparr>,
                                     s5))))))"

section \<open>Vocabulary of the properties\<close>

text \<open>
  A downstream handler that makes the calls \<open>f\<close> computes on whatever writer it is
  given, returns or panics as \<open>f\<close> says, and leaves the world \<open>f\<close> gives.
\<close>

definition serveCalls :: "(Request \<Rightarrow> world \<Rightarrow> wcall list \<times> outcome \<times> world) \<Rightarrow> Handler" where
  "serveCalls f w r s = (case f r s of (cs, out, s') \<Rightarrow> (out, do_calls cs w, s'))"

text \<open>
  A middleware that writes a mark before and after the handler it wraps.
\<close>

definition passing :: "string \<Rightarrow> Middleware" where
  "passing n h w r s =
     (case h (Write (''in '' @ n) w) r s of (out, w', s') \<Rightarrow> (out, Write (''out '' @ n) w', s'))"

text \<open>The access-log entries among the output, oldest first, and the slow-request lines.\<close>

fun clf_entries :: "log_event list \<Rightarrow> CLFEntry list" where
  "clf_entries [] = []"
| "clf_entries (Println_CLF l # es) = l # clf_entries es"
| "clf_entries (e # es) = clf_entries es"

fun slow_lines :: "log_event list \<Rightarrow> (UUID \<times> int) list" where
  "slow_lines [] = []"
| "slow_lines (Printf_slow u t # es) = (u, t) # slow_lines es"
| "slow_lines (e # es) = slow_lines es"

text \<open>The six headers \<open>SecureHeaders\<close> sets on a request that came over TLS.\<close>

definition securityHeaders :: "string list" where
  "securityHeaders =
     [''Strict-Transport-Security'', ''Content-Security-Policy'', ''X-Frame-Options'',
      ''Permissions-Policy'', ''X-Content-Type-Options'', ''Referrer-Policy'']"

text \<open>
  A request and a world to run the handlers on: \<open>GET /\<close> over plain HTTP, a clock that
  advances one millisecond with every reading, thirty-two bytes of entropy.
\<close>

definition req0 :: Request where
  "req0 = \<lparr> Method = ''GET'',
            URL = \<lparr> Scheme = [], Host = [], Path = ''/'', RawPath = [], RawQuery = [] \<rparr>,
            Proto = ''HTTP/1.1'',
            Header = Map.empty,
            ReqHost = ''bwsd.net'',
            RemoteAddr = ''192.0.2.1:50000'',
            TLS = None,
            BasicAuth = None,
            Ctx = [] \<rparr>"

definition world0 :: world where
  "world0 = \<lparr> clock = (\<lambda>n. int n * 1000000), ticks = 0, rander = replicate 32 0x5a, logged = [] \<rparr>"

text \<open>
  A library for running \<open>selfSignedX509\<close>: the key is the next thirty-two bytes of
  entropy, the serial number is 1, and the encoded certificate is the template itself.
\<close>

definition lib0 :: "(8 word list, 8 word list, x509_Certificate) crypto" where
  "lib0 = \<lparr> ecdsa_GenerateKey =
               (\<lambda>s. if length (rander s) < 32 then (Inl ErrUnexpectedEOF, s)
                    else (Inr (take 32 (rander s)), s\<lparr>rander := drop 32 (rander s)\<rparr>)),
            Public = (\<lambda>k. k),
            rand_Int = (\<lambda>limit s. (Inr 1, s)),
            x509_CreateCertificate = (\<lambda>tmpl parent pub priv s. (Inr tmpl, s)) \<rparr>"

section \<open>Properties\<close>

subsection \<open>Composition of middlewares\<close>

lemma nested_snoc: "nested (ms @ [m]) h = nested ms (m h)"
  by (induction ms) simp_all

lemma Apply_loop_nested:
  "i \<le> length m \<Longrightarrow> Apply_loop m i h = nested (take (length m - i) m) h"
proof (induction m i h rule: Apply_loop.induct)
  case (1 m i h)
  show ?case
  proof (cases "i < length m")
    case True
    let ?k = "length m - 1 - i"
    have k: "?k < length m" using True by simp
    have split: "take (length m - i) m = take ?k m @ [m ! ?k]"
      using True take_Suc_conv_app_nth [OF k] by (simp add: Suc_diff_Suc)
    have "Apply_loop m i h = Apply_loop m (Suc i) ((m ! ?k) h)"
      using True by simp
    also have "\<dots> = nested (take (length m - Suc i) m) ((m ! ?k) h)"
      using "1.IH" [OF True] True by simp
    also have "\<dots> = nested (take (length m - i) m) h"
      using True by (simp add: split nested_snoc)
    finally show ?thesis .
  next
    case False
    then show ?thesis using "1.prems" by simp
  qed
qed

text \<open>
  C1. For every list of middlewares \<open>m1, ..., mn\<close> and every base handler \<open>h\<close>,
  \<open>Apply(m1, ..., mn)(h)\<close> is \<open>m1(m2(...mn(h)))\<close>: the first middleware listed is the
  outermost one.
\<close>

theorem Apply_is_nested: "Apply ms h = nested ms h"
  unfolding Apply_def using Apply_loop_nested [of 0 ms h] by simp

text \<open>
  The order of execution for two middlewares: the first listed runs first on the way in and
  last on the way out.
\<close>

lemma Apply_order_example:
  "calls (fst (snd (Apply [passing ''1'', passing ''2'']
                      (serveCalls (\<lambda>r s. ([WriteCall ''h''], Return, s))) (Response []) r s)))
     = [WriteCall ''in 1'', WriteCall ''in 2'', WriteCall ''h'', WriteCall ''out 2'', WriteCall ''out 1'']"
  by (simp add: Apply_def Apply_loop_nested passing_def serveCalls_def)

subsection \<open>Calls on a writer\<close>

lemma calls_Header_Set [simp]: "calls (Header_Set k v w) = calls w @ [HeaderSet k v]"
  by (induction w) simp_all

lemma calls_WriteHeader [simp]: "calls (WriteHeader c w) = calls w @ [WriteHeaderCall c]"
  by (induction w) simp_all

lemma calls_Write [simp]: "calls (Write b w) = calls w @ [WriteCall b]"
  by (induction w) simp_all

lemma codes_of_append [simp]: "codes_of (xs @ ys) = codes_of xs @ codes_of ys"
  by (induction xs rule: codes_of.induct) simp_all

lemma body_of_append [simp]: "body_of (xs @ ys) = body_of xs @ body_of ys"
  by (induction xs rule: body_of.induct) simp_all

lemma w_Header_Header_Set [simp]: "w_Header (Header_Set k v w) = (w_Header w)(k \<mapsto> v)"
  by (simp add: w_Header_def)

lemma w_Header_WriteHeader [simp]: "w_Header (WriteHeader c w) = w_Header w"
  by (simp add: w_Header_def)

lemma w_Header_Write [simp]: "w_Header (Write b w) = w_Header w"
  by (simp add: w_Header_def)

lemma calls_http_Error:
  "calls (http_Error w err code) =
     calls w @ [HeaderSet ''Content-Type'' ''text/plain; charset=utf-8'',
                HeaderSet ''X-Content-Type-Options'' ''nosniff'',
                WriteHeaderCall code, WriteCall (err @ newline)]"
  by (simp add: http_Error_def)

subsection \<open>Panic recovery\<close>

text \<open>
  C3. If the downstream handler panics, \<open>Recover\<close> returns instead of panicking (so the
  failure stays inside the request), it has written the generic 500 response exactly once
  after whatever the downstream had written (one \<open>WriteHeader(500)\<close>, the text
  \<open>Internal Server Error\<close>), and it has logged the recovered value with the request
  context, followed by the stack trace.
\<close>

theorem Recover_contains_panic:
  assumes "next w r s = (Panic err, w', s')"
  shows "\<exists>w'' s''. Recover next w r s = (Return, w'', s'')
           \<and> calls w'' = calls w' @ [HeaderSet ''Content-Type'' ''text/plain; charset=utf-8'',
                                     HeaderSet ''X-Content-Type-Options'' ''nosniff'',
                                     WriteHeaderCall 500,
                                     WriteCall (''Internal Server Error'' @ newline)]
           \<and> codes_of (calls w'') = codes_of (calls w') @ [500]
           \<and> logged s'' = logged s' @ [Printf_panic err (Ctx r), Println_Stack]"
  using assms
  by (simp add: Recover_def calls_http_Error http_StatusText_def emit_def)

theorem Recover_contains_panic_witness:
  "\<exists>w'' s''. Recover (serveCalls (\<lambda>r s. ([WriteCall ''partial''], Panic ''boom'', s)))
                  (Response []) req0 world0
                 = (Return, w'', s'')
           \<and> calls w'' = [WriteCall ''partial'',
                          HeaderSet ''Content-Type'' ''text/plain; charset=utf-8'',
                          HeaderSet ''X-Content-Type-Options'' ''nosniff'',
                          WriteHeaderCall 500,
                          WriteCall (''Internal Server Error'' @ newline)]
           \<and> codes_of (calls w'') = [500]
           \<and> logged s'' = [Printf_panic ''boom'' [], Println_Stack]"
  using Recover_contains_panic [of "serveCalls (\<lambda>r s. ([WriteCall ''partial''], Panic ''boom'', s))"
      "Response []" req0 world0 "''boom''" "Response [WriteCall ''partial'']" world0]
  by (simp add: serveCalls_def req0_def world0_def)

subsection \<open>The HTTPS redirect\<close>

lemma EscapedPath_root:
  "EscapedPath \<lparr>Scheme = sch, Host = h, Path = ''/'', RawPath = [], RawQuery = q\<rparr> = ''/''"
  by (simp add: EscapedPath_def escape_def shouldEscape_def isAlnum_def)

lemma EscapedPath_Scheme [simp]: "EscapedPath (u\<lparr>Scheme := sch\<rparr>) = EscapedPath u"
  by (simp add: EscapedPath_def)

lemma URL_String_https:
  "strings_HasPrefix (URL_String (u\<lparr>Scheme := ''https''\<rparr>)) ''https:''"
  by (simp add: URL_String_def strings_HasPrefix_def Let_def)

lemma codes_http_Redirect:
  "codes_of (calls (http_Redirect w r url code)) = codes_of (calls w) @ [code]"
  by (simp add: http_Redirect_def Let_def)

lemma Location_http_Redirect:
  "w_Header (http_Redirect w r url code) ''Location'' = Some (hexEscapeNonASCII url)"
  by (simp add: http_Redirect_def Let_def)

lemma http_Redirect_keeps:
  "k \<noteq> ''Location'' \<Longrightarrow> k \<noteq> ''Content-Type'' \<Longrightarrow>
     w_Header (http_Redirect w r url code) k = w_Header w k"
  by (simp add: http_Redirect_def Let_def)

text \<open>
  What \<open>SecureHeaders\<close> does with a request that did not arrive over TLS: one
  \<open>WriteHeader(301)\<close>, the Location header set to \<open>r.URL.String()\<close> after the scheme
  was set to \<open>https\<close>, the six security headers left as they were, the world untouched,
  and the same result whatever the wrapped handler is, which is therefore not run.
\<close>

lemma SecureHeaders_without_TLS:
  assumes "TLS r = None"
  shows "\<exists>w'. SecureHeaders h w r s = (Return, w', s)
           \<and> SecureHeaders h' w r s = (Return, w', s)
           \<and> codes_of (calls w') = codes_of (calls w) @ [301]
           \<and> w_Header w' ''Location'' = Some (hexEscapeNonASCII (URL_String ((URL r)\<lparr>Scheme := ''https''\<rparr>)))
           \<and> strings_HasPrefix (URL_String ((URL r)\<lparr>Scheme := ''https''\<rparr>)) ''https:''
           \<and> (\<forall>k \<in> set securityHeaders. w_Header w' k = w_Header w k)"
  using assms
  by (simp add: SecureHeaders_def Let_def codes_http_Redirect Location_http_Redirect
      URL_String_https http_Redirect_keeps securityHeaders_def)

text \<open>
  The host of the target is the host of \<open>r.URL\<close> and nothing else: the \<open>host\<close> the
  handler computes from \<open>r.Host\<close> and \<open>hostList\<close> is not used again. When \<open>r.URL\<close> has no
  host, as for a request line \<open>GET /path HTTP/1.1\<close>, the target has none either.
\<close>

lemma SecureHeaders_Location_without_host:
  assumes "TLS r = None" and "Host (URL r) = []"
  shows "w_Header (fst (snd (SecureHeaders h w r s))) ''Location'' =
           Some (hexEscapeNonASCII
                  (''https:'' @ (if Path (URL r) \<noteq> [] then ''//'' else []) @ EscapedPath (URL r)
                   @ (if RawQuery (URL r) \<noteq> [] then ''?'' @ RawQuery (URL r) else [])))"
  using assms
  by (simp add: SecureHeaders_def Let_def Location_http_Redirect URL_String_def)

text \<open>
  C2. A request that did not arrive over TLS is to be redirected with 301 to the
  \<open>https://\<close> equivalent of its URL, with no security header set and the wrapped handler
  not run. For \<open>GET /x\<close> with \<open>Host: bwsd.net\<close> over plain HTTP the handler answers 301,
  sets no security header and does not run the wrapped handler, but the Location it sends
  is \<open>https:///x\<close>, which is not \<open>https://bwsd.net/x\<close>.
\<close>

theorem SecureHeaders_redirect_drops_host:
  "TLS (req0\<lparr>URL := (URL req0)\<lparr>Path := ''/x''\<rparr>\<rparr>) = None
   \<and> ReqHost (req0\<lparr>URL := (URL req0)\<lparr>Path := ''/x''\<rparr>\<rparr>) = ''bwsd.net''
   \<and> calls (fst (snd (SecureHeaders (serveCalls (\<lambda>r s. ([WriteCall ''index''], Return, s)))
                      (Response []) (req0\<lparr>URL := (URL req0)\<lparr>Path := ''/x''\<rparr>\<rparr>) world0)))
       = [HeaderSet ''Location'' ''https:///x'',
          HeaderSet ''Content-Type'' ''text/html; charset=utf-8'',
          WriteHeaderCall 301,
          WriteCall (''<a href='' @ [CHR 0x22] @ ''https:///x'' @ [CHR 0x22]
                     @ ''>Moved Permanently</a>.'' @ newline @ newline)]
   \<and> ''https:///x'' \<noteq> ''https://bwsd.net/x''"
  by code_simp

subsection \<open>Access logging\<close>

lemma do_calls_StatusRecorder:
  "do_calls cs (StatusRecorder w st sz) =
     StatusRecorder (do_calls cs w) (if codes_of cs = [] then st else last (codes_of cs)) sz"
proof (induction cs arbitrary: w st)
  case Nil
  show ?case by simp
next
  case (Cons c cs)
  show ?case by (cases c) (simp_all add: Cons.IH)
qed

lemma calls_do_calls [simp]: "calls (do_calls cs w) = calls w @ cs"
proof (induction cs arbitrary: w)
  case Nil
  show ?case by simp
next
  case (Cons c cs)
  show ?case by (cases c) (simp_all add: Cons.IH)
qed

lemma clf_entries_append [simp]: "clf_entries (xs @ ys) = clf_entries xs @ clf_entries ys"
  by (induction xs rule: clf_entries.induct) simp_all

lemma slow_lines_append [simp]: "slow_lines (xs @ ys) = slow_lines xs @ slow_lines ys"
  by (induction xs rule: slow_lines.induct) simp_all

lemma NewRequestContext_supplied:
  "Header_Get (Header r) ''uuid'' \<noteq> [] \<Longrightarrow>
     NewRequestContext r s = (context_WithValue (Ctx r) ''uuid'' (ValUUID zeroUUID), s)"
  by (simp add: NewRequestContext_def)

lemma NewRequestContext_uuid:
  "\<exists>uuid s1. NewRequestContext r s = (context_WithValue (Ctx r) ''uuid'' (ValUUID uuid), s1)"
  by (auto simp: NewRequestContext_def Let_def split: prod.splits)

text \<open>
  What \<open>Log\<close> does around a downstream handler that returns after the calls \<open>cs\<close>: the
  same calls reach the writer, the entry gets the last code passed to \<open>WriteHeader\<close> (200
  when there was none) and the size the recorder started with, and the slow-request line
  is printed when \<open>took/1000 >= 200\<close>.
\<close>

lemma Log_serveCalls_Return:
  assumes ctx: "NewRequestContext r s = (context_WithValue (Ctx r) ''uuid'' (ValUUID uuid), s1)"
    and entry: "NewCLFEntry r uuid s1 = (l, s3)"
    and down: "f (r\<lparr>Ctx := context_WithValue (Ctx r) ''uuid'' (ValUUID uuid)\<rparr>) s3 = (cs, Return, s4)"
  shows "Log (serveCalls f) w r s =
           (Return, do_calls cs w,
            (let l' = l\<lparr>status := (if codes_of cs = [] then 200 else last (codes_of cs)), clf_size := 0\<rparr>;
                 s6 = emit (Println_CLF l') (s4\<lparr>ticks := Suc (ticks s4)\<rparr>);
                 took = clock s4 (ticks s4) - ts l
             in if took sdiv 1000 \<ge> 200 then emit (Printf_slow uuid took) s6 else s6))"
  using assms
  by (simp add: Log_def serveCalls_def context_WithValue_def context_Value_def Let_def
      do_calls_StatusRecorder time_Now_def)

lemma Log_entry_size:
  assumes ctx: "NewRequestContext r s = (context_WithValue (Ctx r) ''uuid'' (ValUUID uuid), s1)"
    and entry: "NewCLFEntry r uuid s1 = (l, s3)"
    and down: "f (r\<lparr>Ctx := context_WithValue (Ctx r) ''uuid'' (ValUUID uuid)\<rparr>) s3 = (cs, Return, s4)"
  shows "last (clf_entries (logged (snd (snd (Log (serveCalls f) w r s))))) =
           l\<lparr>status := (if codes_of cs = [] then 200 else last (codes_of cs)), clf_size := 0\<rparr>"
  using Log_serveCalls_Return [where f = f and w = w and r = r and s = s, OF ctx entry down]
  by (simp add: Let_def emit_def)

lemma NewCLFEntry_ident: "ident (fst (NewCLFEntry r uuid s)) = UUID_String uuid"
  by (simp add: NewCLFEntry_def time_Now_def Let_def split: option.splits prod.splits)

text \<open>The test \<open>took/1000 >= 200\<close> holds from 200 microseconds on.\<close>

lemma slow_threshold: "(200 \<le> took sdiv 1000) = (200 * Microsecond \<le> (took :: int))"
proof (cases "0 \<le> took")
  case True
  then have "took sdiv 1000 = took div 1000"
    by (simp add: signed_divide_int_def sgn_if)
  then show ?thesis
    by (simp add: Microsecond_def Nanosecond_def) linarith
next
  case False
  then have "took sdiv 1000 \<le> 0"
    by (simp add: signed_divide_int_def sgn_if)
  then show ?thesis using False
    by (simp add: Microsecond_def Nanosecond_def)
qed

lemma Log_slow_line_iff:
  assumes ctx: "NewRequestContext r s = (context_WithValue (Ctx r) ''uuid'' (ValUUID uuid), s1)"
    and entry: "NewCLFEntry r uuid s1 = (l, s3)"
    and down: "f (r\<lparr>Ctx := context_WithValue (Ctx r) ''uuid'' (ValUUID uuid)\<rparr>) s3 = (cs, Return, s4)"
  shows "slow_lines (logged (snd (snd (Log (serveCalls f) w r s)))) =
           slow_lines (logged s4) @
             (if 200 * Microsecond \<le> clock s4 (ticks s4) - ts l
              then [(uuid, clock s4 (ticks s4) - ts l)] else [])"
  using Log_serveCalls_Return [where f = f and w = w and r = r and s = s, OF ctx entry down]
  by (simp add: Let_def emit_def slow_threshold)

text \<open>
  The same for any downstream handler whose run leaves the recorder it was given after
  the calls \<open>cs\<close>.
\<close>

lemma Log_run_Return:
  assumes ctx: "NewRequestContext r s = (context_WithValue (Ctx r) ''uuid'' (ValUUID uuid), s1)"
    and entry: "NewCLFEntry r uuid s1 = (l, s3)"
    and down: "next (StatusRecorder w 200 0)
                 (r\<lparr>Ctx := context_WithValue (Ctx r) ''uuid'' (ValUUID uuid)\<rparr>) s3
               = (Return, do_calls cs (StatusRecorder w 200 0), s4)"
  shows "Log next w r s =
           (Return, do_calls cs w,
            (let l' = l\<lparr>status := (if codes_of cs = [] then 200 else last (codes_of cs)), clf_size := 0\<rparr>;
                 s6 = emit (Println_CLF l') (s4\<lparr>ticks := Suc (ticks s4)\<rparr>);
                 took = clock s4 (ticks s4) - ts l
             in if took sdiv 1000 \<ge> 200 then emit (Printf_slow uuid took) s6 else s6))"
  using assms
  by (simp add: Log_def context_WithValue_def context_Value_def Let_def
      do_calls_StatusRecorder time_Now_def)

text \<open>Every run of \<open>Log\<close> starts with a context and an entry.\<close>

lemma Log_run_starts:
  "\<exists>uuid s1 l s3.
     NewRequestContext r s = (context_WithValue (Ctx r) ''uuid'' (ValUUID uuid), s1)
     \<and> NewCLFEntry r uuid s1 = (l, s3)"
proof -
  obtain uuid s1 where
    "NewRequestContext r s = (context_WithValue (Ctx r) ''uuid'' (ValUUID uuid), s1)"
    using NewRequestContext_uuid by blast
  moreover obtain l s3 where "NewCLFEntry r uuid s1 = (l, s3)"
    by (cases "NewCLFEntry r uuid s1") blast
  ultimately show ?thesis by blast
qed

text \<open>
  C10. When the downstream handler, on the run \<open>Log\<close> makes of it (the recorder
  \<open>statusRecorder{w, 200, 0}\<close>, the request with the new context, the world after the
  entry was built), returns after calls \<open>cs\<close> among which there is no \<open>WriteHeader\<close>,
  the access-log entry \<open>Log\<close> prints for the request has status 200, the status the
  recorder starts with. What the handler does on other requests or writers plays no part.
\<close>

theorem Log_status_defaults_to_200:
  assumes ctx: "NewRequestContext r s = (context_WithValue (Ctx r) ''uuid'' (ValUUID uuid), s1)"
    and entry: "NewCLFEntry r uuid s1 = (l, s3)"
    and down: "next (StatusRecorder w 200 0)
                 (r\<lparr>Ctx := context_WithValue (Ctx r) ''uuid'' (ValUUID uuid)\<rparr>) s3
               = (Return, do_calls cs (StatusRecorder w 200 0), s4)"
    and nocode: "codes_of cs = []"
  shows "\<exists>s'. Log next w r s = (Return, do_calls cs w, s')
           \<and> clf_entries (logged s') \<noteq> []
           \<and> last (clf_entries (logged s')) = l\<lparr>status := 200, clf_size := 0\<rparr>
           \<and> status (last (clf_entries (logged s'))) = 200"
proof -
  have "Log next w r s =
          (Return, do_calls cs w,
           (let l' = l\<lparr>status := 200, clf_size := 0\<rparr>;
                s6 = emit (Println_CLF l') (s4\<lparr>ticks := Suc (ticks s4)\<rparr>);
                took = clock s4 (ticks s4) - ts l
            in if took sdiv 1000 \<ge> 200 then emit (Printf_slow uuid took) s6 else s6))"
    using Log_run_Return [where ?next = "next" and w = w and r = r and s = s, OF ctx entry down] nocode
    by simp
  then show ?thesis
    by (simp add: Let_def emit_def)
qed

text \<open>
  A handler that answers 404 for every path but \<open>/\<close>, run on \<open>GET /\<close>: it writes no
  status there, and the entry has status 200.
\<close>

theorem Log_status_defaults_to_200_witness:
  "\<exists>s'. Log (serveCalls (\<lambda>r s. if Path (URL r) = ''/''
                                 then ([HeaderSet ''Etag'' ''x'', WriteCall ''hello''], Return, s)
                                 else ([WriteHeaderCall 404, WriteCall ''not found''], Return, s)))
            (Response []) req0 world0
          = (Return, do_calls [HeaderSet ''Etag'' ''x'', WriteCall ''hello''] (Response []), s')
        \<and> clf_entries (logged s') \<noteq> []
        \<and> status (last (clf_entries (logged s'))) = 200"
proof -
  let ?h = "serveCalls (\<lambda>r s. if Path (URL r) = ''/''
                                 then ([HeaderSet ''Etag'' ''x'', WriteCall ''hello''], Return, s)
                                 else ([WriteHeaderCall 404, WriteCall ''not found''], Return, s))"
  let ?cs = "[HeaderSet ''Etag'' ''x'', WriteCall ''hello'']"
  obtain uuid s1 l s3 where
    ctx: "NewRequestContext req0 world0 = (context_WithValue (Ctx req0) ''uuid'' (ValUUID uuid), s1)"
    and entry: "NewCLFEntry req0 uuid s1 = (l, s3)"
    using Log_run_starts by blast
  have down: "?h (StatusRecorder (Response []) 200 0)
                (req0\<lparr>Ctx := context_WithValue (Ctx req0) ''uuid'' (ValUUID uuid)\<rparr>) s3
              = (Return, do_calls ?cs (StatusRecorder (Response []) 200 0), s3)"
    by (simp add: serveCalls_def req0_def)
  have nocode: "codes_of ?cs = []"
    by simp
  from Log_status_defaults_to_200
    [where ?next = ?h and w = "Response []" and r = req0 and s = world0 and cs = ?cs,
      OF ctx entry down nocode]
  show ?thesis by blast
qed

text \<open>
  C7. \<open>statusRecorder\<close> declares no \<open>Write\<close> method, so nothing ever assigns its
  \<open>size\<close>: a downstream handler that writes the five bytes \<open>hello\<close> gets an access-log
  entry of size 0.
\<close>

theorem Log_size_stays_zero:
  "body_of (calls (fst (snd (Log (serveCalls (\<lambda>r s. ([WriteHeaderCall 200, WriteCall ''hello''], Return, s)))
                               (Response []) req0 world0)))) = ''hello''
   \<and> map clf_size (clf_entries (logged (snd (snd
         (Log (serveCalls (\<lambda>r s. ([WriteHeaderCall 200, WriteCall ''hello''], Return, s)))
              (Response []) req0 world0))))) = [0]"
  by code_simp

text \<open>
  C6. \<open>took/1000 >= 200\<close> compares microseconds with 200: a request that took one
  millisecond gets the slow-request line.
\<close>

theorem Log_slow_line_after_one_millisecond:
  "map snd (slow_lines (logged (snd (snd
      (Log (serveCalls (\<lambda>r s. ([], Return, s))) (Response []) req0 world0))))) = [1 * Millisecond]
   \<and> 1 * Millisecond < 200 * Millisecond"
  by code_simp

text \<open>
  C4. For a request that carries the header \<open>uuid: trace-1234\<close>, the identifier put
  into the context is the zero UUID and the access-log entry shows the zero UUID, not the
  supplied value.
\<close>

theorem Log_ignores_supplied_uuid:
  "fst (NewRequestContext (req0\<lparr>Header := [''uuid'' \<mapsto> ''trace-1234'']\<rparr>) world0)
     = [(''uuid'', ValUUID (replicate 16 0))]
   \<and> map ident (clf_entries (logged (snd (snd
         (Log (serveCalls (\<lambda>r s. ([], Return, s))) (Response [])
              (req0\<lparr>Header := [''uuid'' \<mapsto> ''trace-1234'']\<rparr>) world0)))))
       = [''00000000-0000-0000-0000-000000000000'']"
  by code_simp

subsection \<open>The method and length gate\<close>

lemma AcceptHeaders_ignores_m:
  "AcceptHeaders m h w r s = AcceptHeaders [] h w r s"
  by (simp add: AcceptHeaders_def Let_def)

text \<open>
  C5. The loop of \<open>AcceptHeaders\<close> ranges over \<open>DefaultAllowedMethods\<close>, not over the
  list \<open>m\<close> of the caller: with the list \<open>POST\<close> a POST request for \<open>/\<close> is refused with
  405, and a GET request, whose method is not in the list, reaches the wrapped handler.
\<close>

theorem AcceptHeaders_POST_list_rejects_POST:
  "AcceptHeaders [''POST''] h w (req0\<lparr>Method := ''POST''\<rparr>) s
     = (Return, http_Error w ''Method Not Allowed'' 405, s)
   \<and> AcceptHeaders [''POST''] h w req0 s = h w req0 s"
  by (simp add: AcceptHeaders_def Let_def req0_def URL_String_def EscapedPath_root maxURILen_def
      DefaultAllowedMethods_def http_StatusText_def)

text \<open>With no list given, the methods let through are GET, HEAD and OPTIONS.\<close>

lemma AcceptHeaders_default_list:
  assumes "length (URL_String (URL r)) < maxURILen"
  shows "AcceptHeaders [] h w r s =
           (if Method r \<in> {''GET'', ''HEAD'', ''OPTIONS''} then h w r s
            else (Return, http_Error w ''Method Not Allowed'' 405, s))"
  using assms
  by (simp add: AcceptHeaders_def Let_def DefaultAllowedMethods_def http_StatusText_def)

subsection \<open>The static handler\<close>

text \<open>
  C9. \<open>Index\<close> does not return after \<open>http.NotFound\<close>: for
  \<open>/.well-known/acme-challenge/robots.txt\<close> it writes the 404 response, then sets the
  headers of \<open>robots.txt\<close> and runs the file server on the same writer.
\<close>

theorem Index_serves_under_acme_prefix:
  "Index fs w (req0\<lparr>URL := (URL req0)\<lparr>Path := ''/.well-known/acme-challenge/robots.txt''\<rparr>\<rparr>) s
     = fs (Header_Set ''Content-Type'' ''text/plain; charset=utf-8''
            (Header_Set ''Cache-Control'' ''max-age=300''
              (http_Error w ''404 page not found'' 404)))
          (req0\<lparr>URL := (URL req0)\<lparr>Path := ''/.well-known/acme-challenge/robots.txt''\<rparr>\<rparr>) s"
  by (simp add: Index_def serveStaticFS_def Let_def req0_def strings_HasPrefix_def path_Base_def
      http_NotFound_def)

text \<open>A path under the prefix with any other last element gets the 404 response only.\<close>

lemma Index_acme_other:
  "Index fs w (req0\<lparr>URL := (URL req0)\<lparr>Path := ''/.well-known/acme-challenge/token''\<rparr>\<rparr>) s
     = (Return, http_Error w ''404 page not found'' 404, s)"
  by (simp add: Index_def serveStaticFS_def Let_def req0_def strings_HasPrefix_def path_Base_def
      http_NotFound_def)

subsection \<open>The self-signed certificate\<close>

text \<open>
  C8. When \<open>selfSignedX509\<close> succeeds, the certificate in the configuration
  was created from a template whose \<open>NotBefore\<close> is one minute before the first reading
  of the clock (so not after it) and whose \<open>NotAfter\<close> is seven days after the second
  reading: \<open>NotAfter\<close> is \<open>NotBefore\<close> plus seven days plus one minute plus the time
  between the two readings.
\<close>

theorem selfSignedX509_validity:
  assumes "selfSignedX509 lib dirCache s = (Inr cfg, s')"
  shows "\<exists>priv s1 serial s2 tmpl der.
           ecdsa_GenerateKey lib s = (Inr priv, s1)
           \<and> rand_Int lib (2 ^ 128) s1 = (Inr serial, s2)
           \<and> x509_CreateCertificate lib tmpl tmpl (Public lib priv) priv (s2\<lparr>ticks := Suc (Suc (ticks s2))\<rparr>)
                 = (Inr der, s')
           \<and> Certificates cfg = [\<lparr> Certificate = [der], PrivateKey = priv \<rparr>]
           \<and> NotBefore tmpl = clock s2 (ticks s2) - Minute
           \<and> NotBefore tmpl \<le> clock s2 (ticks s2)
           \<and> NotAfter tmpl = clock s2 (Suc (ticks s2)) + 7 * 24 * Hour
           \<and> NotAfter tmpl = NotBefore tmpl + 7 * 24 * Hour + Minute
                               + (clock s2 (Suc (ticks s2)) - clock s2 (ticks s2))"
  using assms
  by (fastforce simp: selfSignedX509_def Let_def time_Now_def Minute_def Second_def Millisecond_def
      Microsecond_def Nanosecond_def split: prod.splits sum.splits)

theorem selfSignedX509_validity_witness:
  "selfSignedX509 lib0 ''/etc/ssl/private'' world0
     = (Inr \<lparr> Certificates =
                [\<lparr> Certificate = [\<lparr> SerialNumber = 1, Organization = [''web''],
                                     NotBefore = 0 - Minute, NotAfter = 1000000 + 7 * 24 * Hour,
                                     KeyUsage = 33, ExtKeyUsage = [ExtKeyUsageServerAuth],
                                     IsCA = True \<rparr>],
                   PrivateKey = replicate 32 0x5a \<rparr>] \<rparr>,
        world0\<lparr>ticks := 2, rander := []\<rparr>)
   \<and> (\<exists>priv s1 serial s2 tmpl der.
           ecdsa_GenerateKey lib0 world0 = (Inr priv, s1)
           \<and> rand_Int lib0 (2 ^ 128) s1 = (Inr serial, s2)
           \<and> x509_CreateCertificate lib0 tmpl tmpl (Public lib0 priv) priv (s2\<lparr>ticks := Suc (Suc (ticks s2))\<rparr>)
                 = (Inr der, world0\<lparr>ticks := 2, rander := []\<rparr>)
           \<and> NotBefore tmpl = clock s2 (ticks s2) - Minute
           \<and> NotAfter tmpl = clock s2 (Suc (ticks s2)) + 7 * 24 * Hour)"
proof -
  have run: "selfSignedX509 lib0 ''/etc/ssl/private'' world0
     = (Inr \<lparr> Certificates =
                [\<lparr> Certificate = [\<lparr> SerialNumber = 1, Organization = [''web''],
                                     NotBefore = 0 - Minute, NotAfter = 1000000 + 7 * 24 * Hour,
                                     KeyUsage = 33, ExtKeyUsage = [ExtKeyUsageServerAuth],
                                     IsCA = True \<rparr>],
                   PrivateKey = replicate 32 0x5a \<rparr>] \<rparr>,
        world0\<lparr>ticks := 2, rander := []\<rparr>)"
    by (simp add: selfSignedX509_def lib0_def world0_def Let_def time_Now_def
        KeyUsageDigitalSignature_def KeyUsageCertSign_def)
  from selfSignedX509_validity [OF run] show ?thesis
    using run by blast
qed

text \<open>
  C8, the relation \<open>NotAfter = NotBefore + 7 days\<close>: with the clock standing still at 0
  the certificate runs from minus one minute to seven days, so the relation fails.
\<close>

theorem selfSignedX509_NotAfter_counterexample:
  "\<exists>cfg s'. selfSignedX509 lib0 ''/etc/ssl/private'' (world0\<lparr>clock := (\<lambda>n. 0)\<rparr>) = (Inr cfg, s')
     \<and> (\<exists>c \<in> set (Certificates cfg). \<exists>der \<in> set (Certificate c).
           NotBefore der = 0 - Minute \<and> NotAfter der \<noteq> NotBefore der + 7 * 24 * Hour)"
  by (simp add: selfSignedX509_def lib0_def world0_def Let_def time_Now_def Minute_def Second_def
      Millisecond_def Microsecond_def Nanosecond_def Hour_def)

end
